theory Spec2Isabelle
  imports Complex_Main
begin

section \<open>Data model of the LiveTutor voice session\<close>

text \<open>
  The component \<open>LiveTutor\<close> keeps its observable state in React state cells and its
  device handles in refs. Both are fields of one record here; a \<open>setX(v)\<close> call and an
  assignment to \<open>xRef.current\<close> are record updates. Browser objects (audio contexts, the
  media stream, nodes, the session) are opaque handles. Everything a handler does to the
  outside world is returned as a list of effects, in the order the source performs them.

  The handlers run on a single event loop, so a handler runs without interference up to
  its end or up to an \<open>await\<close>. A handler that awaits is modelled in steps, one for each
  stretch between two awaits: the steps below are the units between which other events
  can occur.
\<close>

type_synonym handle = nat

datatype status = Idle | Connecting | Active | Error

text \<open>A JavaScript number that may be \<open>NaN\<close> (the result of \<open>0 / 0\<close>).\<close>

datatype number = Num real | NaN

text \<open>The free-form \<open>args\<close> object of a function call: named values.\<close>

type_synonym args = "(string \<times> string) list"

record FunctionCall =
  fc_id :: "string option"
  fc_name :: "string option"
  fc_args :: "args option"

record FunctionResponse =
  fr_id :: "string option"
  fr_name :: "string option"
  fr_result :: string

record ToolCall =
  functionCalls :: "FunctionCall list option"

text \<open>
  The parts of a \<open>LiveServerMessage\<close> that \<open>onmessage\<close> reads, each optional chain
  flattened to one optional field:
  \<open>serverContent?.inputTranscription?.text\<close>, \<open>serverContent?.outputTranscription?.text\<close>,
  \<open>serverContent?.turnComplete\<close>, \<open>toolCall\<close>,
  \<open>serverContent?.modelTurn?.parts?.[0]?.inlineData?.data\<close> and \<open>serverContent?.interrupted\<close>.
\<close>

record LiveServerMessage =
  inputTranscription :: "string option"
  outputTranscription :: "string option"
  turnComplete :: bool
  toolCall :: "ToolCall option"
  audioData :: "string option"
  interrupted :: bool

text \<open>
  An \<open>AudioBufferSourceNode\<close> that has been started: its identity, the time passed to
  \<open>start\<close> and the duration of its buffer.
\<close>

record BufferSource =
  src_id :: nat
  src_when :: real
  src_duration :: real

datatype effect =
    SendToolResponse "FunctionResponse list"
  | SourceStart BufferSource
  | SourceStop nat
  | ClearTimeout nat
  | SetTimeout nat
  | TracksStop handle
  | NodeDisconnect handle
  | ContextClose handle
  | SessionClose handle
  | SendRealtimeInput "real list"

text \<open>
  \<open>audioSourcesRef\<close> is a JavaScript \<open>Set\<close> of distinct node objects; it is kept as the
  list of its elements in insertion order, which is the order \<open>forEach\<close> visits them.
  \<open>nextObject\<close> is not in the source: it numbers the objects the handlers create
  (buffer sources and timers), so that two of them are never confused.
\<close>

record LiveTutor =
  isConnected :: bool
  status :: status
  errorMessage :: "string option"
  volume :: number
  aiSpeaking :: bool
  userTranscript :: string
  aiTranscript :: string
  currentTip :: "args option"
  inputContextRef :: "handle option"
  outputContextRef :: "handle option"
  streamRef :: "handle option"
  processorRef :: "handle option"
  sourceRef :: "handle option"
  sessionPromiseRef :: "handle option"
  nextStartTimeRef :: real
  audioSourcesRef :: "BufferSource list"
  tipTimeoutRef :: "nat option"
  nextObject :: nat

definition initial :: LiveTutor where
  "initial =
     \<lparr>isConnected = False, status = Idle, errorMessage = None, volume = Num 0,
      aiSpeaking = False, userTranscript = [], aiTranscript = [], currentTip = None,
      inputContextRef = None, outputContextRef = None, streamRef = None,
      processorRef = None, sourceRef = None, sessionPromiseRef = None,
      nextStartTimeRef = 0, audioSourcesRef = [], tipTimeoutRef = None, nextObject = 0\<rparr>"

section \<open>Capture: \<open>processor.onaudioprocess\<close>\<close>

text \<open>
  The loop \<open>for (i = 0; i < inputData.length; i++) sum += inputData[i] * inputData[i]\<close>,
  with the running \<open>sum\<close> as the accumulator \<open>acc\<close>.
\<close>

fun sumSquares :: "real \<Rightarrow> real list \<Rightarrow> real" where
  "sumSquares acc [] = acc"
| "sumSquares acc (x # xs) = sumSquares (acc + x * x) xs"

text \<open>
  \<open>Math.sqrt(sum / inputData.length)\<close>. For an empty buffer the source divides zero by
  zero, which is \<open>NaN\<close> in JavaScript (and 0 in HOL, so the case is written out).
\<close>

definition rms :: "real list \<Rightarrow> number" where
  "rms inputData =
     (let total = sumSquares 0 inputData
      in if length inputData = 0 then NaN
         else Num (sqrt (total / real (length inputData))))"

text \<open>
  The callback sets the volume and sends the frame. The blob sent is made by
  \<open>createPcmBlob\<close> (in \<open>utils/audio\<close>, not among the sources); the effect records the
  samples it is made from.
\<close>

definition onaudioprocess :: "real list \<Rightarrow> LiveTutor \<Rightarrow> LiveTutor \<times> effect list" where
  "onaudioprocess inputData s =
     (s\<lparr>volume := rms inputData\<rparr>, [SendRealtimeInput inputData])"

text \<open>
  The specification's wording of the volume, to compare with \<open>rms\<close>: the square root of
  the mean of the squared sample values.
\<close>

definition rootMeanSquare :: "real list \<Rightarrow> real" where
  "rootMeanSquare xs = sqrt ((\<Sum>x\<leftarrow>xs. x\<^sup>2) / real (length xs))"

section \<open>Inbound messages: \<open>onmessage\<close>\<close>

subsection \<open>Transcription (lines 181 to 194)\<close>

text \<open>A string is truthy in a JavaScript condition when it is not empty.\<close>

definition truthy :: "string option \<Rightarrow> bool" where
  "truthy t = (case t of None \<Rightarrow> False | Some x \<Rightarrow> x \<noteq> [])"

definition handleTranscription :: "LiveServerMessage \<Rightarrow> LiveTutor \<Rightarrow> LiveTutor" where
  "handleTranscription m s =
     (let s1 = (if truthy (inputTranscription m)
                then s\<lparr>userTranscript := the (inputTranscription m)\<rparr> else s);
          s2 = (if truthy (outputTranscription m)
                then s1\<lparr>aiTranscript := aiTranscript s1 @ the (outputTranscription m)\<rparr>
                else s1)
      in if turnComplete m then s2\<lparr>aiTranscript := []\<rparr> else s2)"

subsection \<open>Tool calls (lines 196 to 223)\<close>

text \<open>
  The body of \<open>calls.forEach\<close>: only a call named \<open>showPronunciationTip\<close> has an effect.
  Its \<open>args\<close> are shown as they are; a pending expiry timer is cancelled (the timer id is
  tested for truthiness, so an id 0 would not be) and a new one is set for 8 seconds.
\<close>

definition showTip :: "FunctionCall \<Rightarrow> LiveTutor \<Rightarrow> LiveTutor \<times> effect list" where
  "showTip call s =
     (if fc_name call = Some ''showPronunciationTip'' then
        (let t = Suc (nextObject s);
             cancel = (case tipTimeoutRef s of
                         None \<Rightarrow> []
                       | Some old \<Rightarrow> if old \<noteq> 0 then [ClearTimeout old] else [])
         in (s\<lparr>currentTip := fc_args call, tipTimeoutRef := Some t, nextObject := t\<rparr>,
             cancel @ [SetTimeout t]))
      else (s, []))"

fun forEachCall :: "FunctionCall list \<Rightarrow> LiveTutor \<Rightarrow> LiveTutor \<times> effect list" where
  "forEachCall [] s = (s, [])"
| "forEachCall (call # calls) s =
     (let (s1, e1) = showTip call s;
          (s2, e2) = forEachCall calls s1
      in (s2, e1 @ e2))"

text \<open>
  The element \<open>calls.map\<close> builds for each call: its id, its name, and the result
  \<open>"OK"\<close>.
\<close>

definition acknowledge :: "FunctionCall \<Rightarrow> FunctionResponse" where
  "acknowledge c = \<lparr>fr_id = fc_id c, fr_name = fc_name c, fr_result = ''OK''\<rparr>"

text \<open>
  The response is sent through the \<open>sessionPromise\<close> of the enclosing \<open>startSession\<close>
  call (a local constant, not the ref), which has resolved whenever \<open>onmessage\<close> runs.
\<close>

definition handleToolCall :: "LiveServerMessage \<Rightarrow> LiveTutor \<Rightarrow> LiveTutor \<times> effect list" where
  "handleToolCall m s =
     (case toolCall m of
        None \<Rightarrow> (s, [])
      | Some tc \<Rightarrow>
          (case functionCalls tc of
             None \<Rightarrow> (s, [])
           | Some calls \<Rightarrow>
               if length calls > 0 then
                 (let (s1, e1) = forEachCall calls s
                  in (s1, e1 @ [SendToolResponse (map acknowledge calls)]))
               else (s, [])))"

subsection \<open>Audio output (lines 225 to 258)\<close>

text \<open>How the audio block leaves the handler.\<close>

datatype completion = Proceed | Returned | Threw

text \<open>
  The handler is an \<open>async\<close> function and the audio block suspends it at
  \<open>await decodeAudioData\<close> (line 237): other handlers can run before it resumes. So the
  block is two steps. The first (lines 226 to 236) sets the speaking flag, returns when
  there is no output context, and otherwise moves \<open>nextStartTimeRef\<close> up to the output
  clock and hands the chunk to the decoder. \<open>now\<close> is
  \<open>outputContextRef.current.currentTime\<close> as read on line 234.
\<close>

datatype suspension = NoAudio | NoContext | Decoding string

definition handleAudio_begin ::
  "real \<Rightarrow> LiveServerMessage \<Rightarrow> LiveTutor \<Rightarrow> LiveTutor \<times> suspension" where
  "handleAudio_begin now m s =
     (if truthy (audioData m) then
        (let s1 = s\<lparr>aiSpeaking := True\<rparr>
         in case outputContextRef s1 of
              None \<Rightarrow> (s1, NoContext)
            | Some ctx \<Rightarrow>
                (s1\<lparr>nextStartTimeRef := max (nextStartTimeRef s1) now\<rparr>,
                 Decoding (the (audioData m))))
      else (s, NoAudio))"

text \<open>
  The second step (lines 237 to 257) runs when the decoder is done, in the state of that
  moment. \<open>decodeAudioData\<close> and \<open>decodeBase64\<close> live in \<open>utils/audio\<close>, which is not
  among the sources. The block only uses the duration of the buffer they produce, so they
  are the parameter \<open>decode\<close>, from the base64 text to that duration, \<open>None\<close> when they
  throw. \<open>outputContextRef.current.createBufferSource()\<close> throws as well when the ref has
  become null. Otherwise the source is started at the value \<open>nextStartTimeRef\<close> has now,
  which then advances by the duration, and the source joins the active set.
\<close>

definition handleAudio_resume ::
  "(string \<Rightarrow> real option) \<Rightarrow> string \<Rightarrow> LiveTutor
     \<Rightarrow> (LiveTutor \<times> effect list) \<times> completion" where
  "handleAudio_resume decode b s =
     (case decode b of
        None \<Rightarrow> ((s, []), Threw)
      | Some d \<Rightarrow>
          (case outputContextRef s of
             None \<Rightarrow> ((s, []), Threw)
           | Some ctx \<Rightarrow>
               (let src = \<lparr>src_id = nextObject s,
                           src_when = nextStartTimeRef s,
                           src_duration = d\<rparr>
                in ((s\<lparr>nextStartTimeRef := nextStartTimeRef s + d,
                       audioSourcesRef := audioSourcesRef s @ [src],
                       nextObject := Suc (nextObject s)\<rparr>,
                     [SourceStart src]), Proceed))))"

text \<open>The audio block when nothing else runs while the chunk is decoded.\<close>

definition handleAudio ::
  "(string \<Rightarrow> real option) \<Rightarrow> real \<Rightarrow> LiveServerMessage \<Rightarrow> LiveTutor
     \<Rightarrow> (LiveTutor \<times> effect list) \<times> completion" where
  "handleAudio decode now m s =
     (case handleAudio_begin now m s of
        (s1, NoAudio) \<Rightarrow> ((s1, []), Proceed)
      | (s1, NoContext) \<Rightarrow> ((s1, []), Returned)
      | (s1, Decoding b) \<Rightarrow> handleAudio_resume decode b s1)"

text \<open>The \<open>onended\<close> callback of the source with the given identity.\<close>

definition onended :: "nat \<Rightarrow> LiveTutor \<Rightarrow> LiveTutor" where
  "onended i s =
     (let s1 = s\<lparr>audioSourcesRef := filter (\<lambda>x. src_id x \<noteq> i) (audioSourcesRef s)\<rparr>
      in if length (audioSourcesRef s1) = 0 then s1\<lparr>aiSpeaking := False\<rparr> else s1)"

subsection \<open>Interruption (lines 260 to 267)\<close>

definition handleInterrupted :: "LiveServerMessage \<Rightarrow> LiveTutor \<Rightarrow> LiveTutor \<times> effect list" where
  "handleInterrupted m s =
     (if interrupted m then
        (s\<lparr>audioSourcesRef := [], nextStartTimeRef := 0, aiSpeaking := False,
           aiTranscript := []\<rparr>,
         map (\<lambda>src. SourceStop (src_id src)) (audioSourcesRef s))
      else (s, []))"

subsection \<open>The whole handler\<close>

text \<open>
  A handler that is suspended in the decoder: the chunk being decoded and the message
  whose interruption block is still to run. \<open>pendingAt\<close> is not in the source: it keeps
  the clock reading of line 234 for the statements about it.
\<close>

record pending =
  pendingAt :: real
  pendingChunk :: string
  pendingMessage :: LiveServerMessage

text \<open>
  The handler from its call up to where it ends or suspends: the transcription and tool
  blocks, the first step of the audio block and, when the message has no audio, the
  interruption block. The \<open>return\<close> of the audio block (no output context) leaves the
  whole handler, so the interruption block is not reached then.
\<close>

definition onmessage_begin ::
  "real \<Rightarrow> LiveServerMessage \<Rightarrow> LiveTutor
     \<Rightarrow> (LiveTutor \<times> effect list) \<times> pending option" where
  "onmessage_begin now m s =
     (let s1 = handleTranscription m s;
          (s2, e2) = handleToolCall m s1;
          (s3, a) = handleAudio_begin now m s2
      in case a of
           NoAudio \<Rightarrow> (let (s4, e4) = handleInterrupted m s3 in ((s4, e2 @ e4), None))
         | NoContext \<Rightarrow> ((s3, e2), None)
         | Decoding b \<Rightarrow>
             ((s3, e2), Some \<lparr>pendingAt = now, pendingChunk = b, pendingMessage = m\<rparr>))"

text \<open>
  The rest of a suspended handler: the second step of the audio block and then, unless
  that threw, the interruption block.
\<close>

definition onmessage_resume ::
  "(string \<Rightarrow> real option) \<Rightarrow> pending \<Rightarrow> LiveTutor \<Rightarrow> LiveTutor \<times> effect list" where
  "onmessage_resume decode p s =
     (let ((s3, e3), c) = handleAudio_resume decode (pendingChunk p) s
      in if c = Proceed then
           (let (s4, e4) = handleInterrupted (pendingMessage p) s3 in (s4, e3 @ e4))
         else (s3, e3))"

text \<open>The handler from call to end when nothing else runs while its chunk is decoded.\<close>

definition onmessage ::
  "(string \<Rightarrow> real option) \<Rightarrow> real \<Rightarrow> LiveServerMessage \<Rightarrow> LiveTutor
     \<Rightarrow> LiveTutor \<times> effect list" where
  "onmessage decode now m s =
     (case onmessage_begin now m s of
        ((s1, e1), None) \<Rightarrow> (s1, e1)
      | ((s1, e1), Some p) \<Rightarrow>
          (let (s2, e2) = onmessage_resume decode p s1 in (s2, e1 @ e2)))"

subsection \<open>Handlers in flight\<close>

text \<open>
  What happens on the channel of a session: a message arrives when the output clock reads
  some time, or the decoder finishes for one of the suspended handlers (the \<open>k\<close>-th of
  those in flight, in the order of their arrival). The state of a session is the
  component's state with the handlers in flight.
\<close>

datatype event = Arrive real LiveServerMessage | Decoded nat

fun sessionStep ::
  "(string \<Rightarrow> real option) \<Rightarrow> event \<Rightarrow> LiveTutor \<times> pending list
     \<Rightarrow> (LiveTutor \<times> pending list) \<times> effect list" where
  "sessionStep decode (Arrive now m) (s, ps) =
     (let ((s1, e1), p) = onmessage_begin now m s
      in ((s1, ps @ (case p of None \<Rightarrow> [] | Some x \<Rightarrow> [x])), e1))"
| "sessionStep decode (Decoded k) (s, ps) =
     (if k < length ps then
        (let (s1, e1) = onmessage_resume decode (ps ! k) s
         in ((s1, take k ps @ drop (Suc k) ps), e1))
      else ((s, ps), []))"

fun sessionRun ::
  "(string \<Rightarrow> real option) \<Rightarrow> event list \<Rightarrow> LiveTutor \<times> pending list
     \<Rightarrow> (LiveTutor \<times> pending list) \<times> effect list" where
  "sessionRun decode [] c = (c, [])"
| "sessionRun decode (e # es) c =
     (let (c1, e1) = sessionStep decode e c;
          (c2, e2) = sessionRun decode es c1
      in (c2, e1 @ e2))"

section \<open>Lifecycle: \<open>stopSession\<close>, \<open>startSession\<close> and the channel callbacks\<close>

text \<open>
  One \<open>if (ref.current) { release(ref.current); ref.current = null }\<close> block of
  \<open>stopSession\<close>: the effect for a handle that is held, nothing otherwise.
\<close>

definition release :: "(handle \<Rightarrow> effect) \<Rightarrow> handle option \<Rightarrow> effect list" where
  "release f r = (case r of None \<Rightarrow> [] | Some h \<Rightarrow> [f h])"

text \<open>
  \<open>stopSession\<close> (lines 290 to 333). The expiry timer is cancelled but
  \<open>tipTimeoutRef\<close> keeps its id. Neither the transcripts, the tip and the error message
  nor \<open>nextStartTimeRef\<close> and \<open>audioSourcesRef\<close> are written.
\<close>

definition stopSession :: "LiveTutor \<Rightarrow> LiveTutor \<times> effect list" where
  "stopSession s =
     (s\<lparr>isConnected := False, status := Idle, aiSpeaking := False,
        streamRef := None, sourceRef := None, processorRef := None,
        inputContextRef := None, outputContextRef := None, sessionPromiseRef := None\<rparr>,
      (case tipTimeoutRef s of
         None \<Rightarrow> []
       | Some t \<Rightarrow> if t \<noteq> 0 then [ClearTimeout t] else [])
      @ release TracksStop (streamRef s)
      @ release NodeDisconnect (sourceRef s)
      @ release NodeDisconnect (processorRef s)
      @ release ContextClose (inputContextRef s)
      @ release ContextClose (outputContextRef s)
      @ release SessionClose (sessionPromiseRef s))"

text \<open>The first five statements of \<open>startSession\<close> (lines 112 to 116), before \<open>try\<close>.\<close>

definition startSession_reset :: "LiveTutor \<Rightarrow> LiveTutor" where
  "startSession_reset s =
     s\<lparr>status := Connecting, errorMessage := None, userTranscript := [],
       aiTranscript := [], currentTip := None\<rparr>"

text \<open>The \<open>catch\<close> block of \<open>startSession\<close>.\<close>

definition startSession_catch :: "LiveTutor \<Rightarrow> LiveTutor" where
  "startSession_catch s =
     s\<lparr>errorMessage := Some ''Could not access microphone or connect.'', status := Error\<rparr>"

text \<open>
  What the environment answers to the acquisition in the \<open>try\<close> block: the two audio
  contexts (either constructor may throw), then the microphone stream (the request may
  be rejected), then the pending connection.
\<close>

datatype acquisition =
    NoInputContext
  | NoOutputContext handle
  | MicrophoneDenied handle handle
  | Acquired handle handle handle handle

text \<open>
  The \<open>try\<close> block up to the \<open>await\<close> of \<open>getUserMedia\<close>: the contexts are created and
  stored. \<open>None\<close> is returned when a constructor threw (the state is then the one after
  \<open>catch\<close>).
\<close>

definition startSession_contexts :: "acquisition \<Rightarrow> LiveTutor \<Rightarrow> LiveTutor \<times> bool" where
  "startSession_contexts a s =
     (case a of
        NoInputContext \<Rightarrow> (startSession_catch s, False)
      | NoOutputContext ic \<Rightarrow> (startSession_catch (s\<lparr>inputContextRef := Some ic\<rparr>), False)
      | MicrophoneDenied ic oc \<Rightarrow>
          (s\<lparr>inputContextRef := Some ic, outputContextRef := Some oc\<rparr>, True)
      | Acquired ic oc st sp \<Rightarrow>
          (s\<lparr>inputContextRef := Some ic, outputContextRef := Some oc\<rparr>, True))"

text \<open>
  The rest of the \<open>try\<close> block, after the \<open>await\<close>: the stream is stored, the output
  node is created from \<open>outputContextRef.current\<close> (a \<open>TypeError\<close> when that is null), the
  connection is requested and its promise stored.
\<close>

definition startSession_resume :: "acquisition \<Rightarrow> LiveTutor \<Rightarrow> LiveTutor" where
  "startSession_resume a s =
     (case a of
        Acquired ic oc st sp \<Rightarrow>
          (let s1 = s\<lparr>streamRef := Some st\<rparr>
           in case outputContextRef s1 of
                None \<Rightarrow> startSession_catch s1
              | Some ctx \<Rightarrow> s1\<lparr>sessionPromiseRef := Some sp\<rparr>)
      | _ \<Rightarrow> startSession_catch s)"


text \<open>
  \<open>onopen\<close>: the capture nodes \<open>src\<close> and \<open>proc\<close> are created from the input context, if
  there is one.
\<close>

definition onopen :: "handle \<Rightarrow> handle \<Rightarrow> LiveTutor \<Rightarrow> LiveTutor" where
  "onopen src proc s =
     (let s1 = s\<lparr>status := Active, isConnected := True\<rparr>
      in case inputContextRef s1 of
           None \<Rightarrow> s1
         | Some ctx \<Rightarrow> s1\<lparr>sourceRef := Some src, processorRef := Some proc\<rparr>)"

definition onclose :: "LiveTutor \<Rightarrow> LiveTutor \<times> effect list" where
  "onclose s = stopSession s"

definition onerror :: "LiveTutor \<Rightarrow> LiveTutor \<times> effect list" where
  "onerror s = stopSession (s\<lparr>errorMessage := Some ''Connection error. Please try again.''\<rparr>)"

text \<open>
  The start button is rendered when \<open>isConnected\<close> is false and is disabled while the
  status is \<open>connecting\<close>.
\<close>

definition startEnabled :: "LiveTutor \<Rightarrow> bool" where
  "startEnabled s = (\<not> isConnected s \<and> status s \<noteq> Connecting)"

section \<open>Observations used by the theorems\<close>

text \<open>The handle a ref holds, if any, and the handles a state still holds.\<close>

definition held :: "handle option \<Rightarrow> handle list" where
  "held r = (case r of None \<Rightarrow> [] | Some h \<Rightarrow> [h])"

definition heldHandles :: "LiveTutor \<Rightarrow> handle list" where
  "heldHandles s =
     held (streamRef s) @ held (sourceRef s) @ held (processorRef s)
     @ held (inputContextRef s) @ held (outputContextRef s) @ held (sessionPromiseRef s)"

text \<open>
  What an effect list does to handles, one observation for each operation: the streams
  whose tracks it stops, the nodes it disconnects, the audio contexts it closes and the
  sessions it closes, each in order.
\<close>

fun tracksStopped :: "effect list \<Rightarrow> handle list" where
  "tracksStopped [] = []"
| "tracksStopped (TracksStop h # es) = h # tracksStopped es"
| "tracksStopped (e # es) = tracksStopped es"

fun nodesDisconnected :: "effect list \<Rightarrow> handle list" where
  "nodesDisconnected [] = []"
| "nodesDisconnected (NodeDisconnect h # es) = h # nodesDisconnected es"
| "nodesDisconnected (e # es) = nodesDisconnected es"

fun contextsClosed :: "effect list \<Rightarrow> handle list" where
  "contextsClosed [] = []"
| "contextsClosed (ContextClose h # es) = h # contextsClosed es"
| "contextsClosed (e # es) = contextsClosed es"

fun sessionsClosed :: "effect list \<Rightarrow> handle list" where
  "sessionsClosed [] = []"
| "sessionsClosed (SessionClose h # es) = h # sessionsClosed es"
| "sessionsClosed (e # es) = sessionsClosed es"

text \<open>The function calls a message delivers.\<close>

definition delivered :: "LiveServerMessage \<Rightarrow> FunctionCall list" where
  "delivered m =
     (case toolCall m of
        None \<Rightarrow> []
      | Some tc \<Rightarrow> (case functionCalls tc of None \<Rightarrow> [] | Some calls \<Rightarrow> calls))"

text \<open>
  The tool responses an effect list sends, the buffer sources it starts and the
  identities of those it stops, each in order.
\<close>

fun acknowledgements :: "effect list \<Rightarrow> FunctionResponse list" where
  "acknowledgements [] = []"
| "acknowledgements (SendToolResponse rs # es) = rs @ acknowledgements es"
| "acknowledgements (e # es) = acknowledgements es"

fun started :: "effect list \<Rightarrow> BufferSource list" where
  "started [] = []"
| "started (SourceStart src # es) = src # started es"
| "started (e # es) = started es"

fun stopped :: "effect list \<Rightarrow> nat list" where
  "stopped [] = []"
| "stopped (SourceStop i # es) = i # stopped es"
| "stopped (e # es) = stopped es"

text \<open>
  The handler run over the messages of a session in their order of arrival, each with
  the reading of the output clock at its arrival and each to its end before the next.
\<close>

fun receiveAll ::
  "(string \<Rightarrow> real option) \<Rightarrow> (real \<times> LiveServerMessage) list \<Rightarrow> LiveTutor
     \<Rightarrow> LiveTutor \<times> effect list" where
  "receiveAll decode [] s = (s, [])"
| "receiveAll decode ((now, m) # ms) s =
     (let (s1, e1) = onmessage decode now m s;
          (s2, e2) = receiveAll decode ms s1
      in (s2, e1 @ e2))"

text \<open>The events that carry the interrupted signal, and the function calls an event delivers.\<close>

fun interrupts :: "event \<Rightarrow> bool" where
  "interrupts (Arrive now m) = interrupted m"
| "interrupts (Decoded k) = False"

fun deliveredBy :: "event \<Rightarrow> FunctionCall list" where
  "deliveredBy (Arrive now m) = delivered m"
| "deliveredBy (Decoded k) = []"

text \<open>The calls of \<open>showPronunciationTip\<close> among the function calls of a message.\<close>

definition tipCalls :: "LiveServerMessage \<Rightarrow> FunctionCall list" where
  "tipCalls m = filter (\<lambda>c. fc_name c = Some ''showPronunciationTip'') (delivered m)"

subsection \<open>Concrete inputs\<close>

text \<open>
  A session in full flight: connected, two segments queued, both transcripts and a tip on
  screen, every handle held.
\<close>

definition sessionActive :: LiveTutor where
  "sessionActive =
     \<lparr>isConnected = True, status = Active, errorMessage = None, volume = Num 0,
      aiSpeaking = True, userTranscript = ''I sink so'', aiTranscript = ''Try think'',
      currentTip = Some [(''word'', ''think''), (''tip'', ''Tongue between teeth'')],
      inputContextRef = Some 1, outputContextRef = Some 2, streamRef = Some 3,
      processorRef = Some 5, sourceRef = Some 4, sessionPromiseRef = Some 6,
      nextStartTimeRef = 3,
      audioSourcesRef = [\<lparr>src_id = 0, src_when = 0, src_duration = 1\<rparr>,
                          \<lparr>src_id = 1, src_when = 1, src_duration = 2\<rparr>],
      tipTimeoutRef = Some 7, nextObject = 7\<rparr>"

text \<open>
  A session whose \<open>startSession\<close> is suspended at the microphone request: the audio
  contexts 1 and 2 exist, the stream 3 and the connection 6 are still to come.
\<close>

definition acquiring :: LiveTutor where
  "acquiring = fst (startSession_contexts (Acquired 1 2 3 6) (startSession_reset initial))"

text \<open>A session that has just opened: nothing scheduled yet.\<close>

definition listening :: LiveTutor where
  "listening = initial\<lparr>isConnected := True, status := Active, outputContextRef := Some 2\<rparr>"

text \<open>A message with every optional part absent, and messages with one or two parts set.\<close>

definition emptyMessage :: LiveServerMessage where
  "emptyMessage =
     \<lparr>inputTranscription = None, outputTranscription = None, turnComplete = False,
      toolCall = None, audioData = None, interrupted = False\<rparr>"

text \<open>
  A decoder for the evaluations: half a second of audio for each character, and an
  exception on an odd length.
\<close>

definition decodeByLength :: "string \<Rightarrow> real option" where
  "decodeByLength b = (if even (length b) then Some (real (length b) / 2) else None)"

definition audioChunk :: "string \<Rightarrow> LiveServerMessage" where
  "audioChunk b = emptyMessage\<lparr>audioData := Some b\<rparr>"

text \<open>
  Three chunks: the second arrives while the first is decoded, the third arrives late,
  after the second has played out.
\<close>

definition exampleEvents :: "event list" where
  "exampleEvents =
     [Arrive 0 (audioChunk ''AAAA''), Arrive (1 / 2) (audioChunk ''AAAAAA''), Decoded 0,
      Decoded 0, Arrive 9 (audioChunk ''AA''), Decoded 0]"

text \<open>
  Two chunks of which the second arrives, at clock 2, while the first, arrived at clock
  1, is decoded; and one chunk during whose decoding an interruption arrives.
\<close>

definition overtakenEvents :: "event list" where
  "overtakenEvents = [Arrive 1 (audioChunk ''AAAA''), Arrive 2 (audioChunk ''AA''), Decoded 0]"

definition interruptedDecoding :: "event list" where
  "interruptedDecoding =
     [Arrive 5 (audioChunk ''AAAA''), Arrive 6 (emptyMessage\<lparr>interrupted := True\<rparr>),
      Decoded 0]"

text \<open>Transcription events: a user snapshot with a remote delta, and the end of a turn.\<close>

definition transcriptMessage :: LiveServerMessage where
  "transcriptMessage =
     emptyMessage\<lparr>inputTranscription := Some ''I think so'',
                  outputTranscription := Some '' again''\<rparr>"

definition turnCompleteMessage :: LiveServerMessage where
  "turnCompleteMessage =
     emptyMessage\<lparr>outputTranscription := Some '' again'', turnComplete := True\<rparr>"

text \<open>
  Tool calls: one of a tool that is not declared, one of \<open>showPronunciationTip\<close> without
  its required \<open>tip\<close>.
\<close>

definition unknownToolMessage :: LiveServerMessage where
  "unknownToolMessage =
     emptyMessage\<lparr>toolCall := Some \<lparr>functionCalls = Some
       [\<lparr>fc_id = Some ''t1'', fc_name = Some ''playSound'', fc_args = Some []\<rparr>]\<rparr>\<rparr>"

definition missingTipMessage :: LiveServerMessage where
  "missingTipMessage =
     emptyMessage\<lparr>toolCall := Some \<lparr>functionCalls = Some
       [\<lparr>fc_id = Some ''t2'', fc_name = Some ''showPronunciationTip'',
         fc_args = Some [(''word'', ''think'')]\<rparr>]\<rparr>\<rparr>"

text \<open>A message that carries both an audio chunk and the interrupted signal.\<close>

definition interruptedWithAudio :: LiveServerMessage where
  "interruptedWithAudio = emptyMessage\<lparr>audioData := Some ''AAAA'', interrupted := True\<rparr>"

section \<open>The volume indicator\<close>

lemma sumSquares_sum_list: "sumSquares acc xs = acc + (\<Sum>x\<leftarrow>xs. x\<^sup>2)"
  by (induction xs arbitrary: acc) (simp_all add: power2_eq_square)

text \<open>
  C9. For every non-empty capture window the volume that \<open>onaudioprocess\<close> reports is the
  root mean square of the window's samples, and it is 0 for a window of silence. The
  samples and the arithmetic are real numbers here, the idealisation of the source's
  floating point; the window of the source always has 4096 samples.
\<close>

theorem volume_is_rms:
  assumes "inputData \<noteq> []"
  shows "volume (fst (onaudioprocess inputData s)) = Num (rootMeanSquare inputData)
     \<and> ((\<forall>x\<in>set inputData. x = 0) \<longrightarrow> volume (fst (onaudioprocess inputData s)) = Num 0)"
proof -
  have v: "volume (fst (onaudioprocess inputData s)) = Num (rootMeanSquare inputData)"
    using assms by (simp add: onaudioprocess_def rms_def rootMeanSquare_def sumSquares_sum_list)
  have "(\<forall>x\<in>set inputData. x = 0) \<longrightarrow> (\<Sum>x\<leftarrow>inputData. x\<^sup>2) = 0"
    by (induction inputData) simp_all
  then show ?thesis using v by (simp add: rootMeanSquare_def)
qed

theorem volume_is_rms_witness:
  "[0, 0, 0] \<noteq> ([] :: real list)
   \<and> volume (fst (onaudioprocess [0, 0, 0] initial)) = Num 0"
  using volume_is_rms [of "[0, 0, 0]" initial] by (simp add: rootMeanSquare_def)

lemma volume_example: "volume (fst (onaudioprocess [3/5, 4/5, 0, 0] initial)) = Num (1/2)"
  by (simp add: onaudioprocess_def rms_def real_sqrt_divide)

lemma volume_empty_window: "volume (fst (onaudioprocess [] s)) = NaN"
  by (simp add: onaudioprocess_def rms_def)

section \<open>The handler when nothing runs during the decoding\<close>

text \<open>Then the audio block and the handler are what the source reads from top to bottom.\<close>

lemma handleAudio_blocks:
  "handleAudio decode now m s =
     (if truthy (audioData m) then
        (let s1 = s\<lparr>aiSpeaking := True\<rparr>
         in case outputContextRef s1 of
              None \<Rightarrow> ((s1, []), Returned)
            | Some ctx \<Rightarrow>
                (let s2 = s1\<lparr>nextStartTimeRef := max (nextStartTimeRef s1) now\<rparr>
                 in case decode (the (audioData m)) of
                      None \<Rightarrow> ((s2, []), Threw)
                    | Some d \<Rightarrow>
                        (let src = \<lparr>src_id = nextObject s2,
                                    src_when = nextStartTimeRef s2,
                                    src_duration = d\<rparr>
                         in ((s2\<lparr>nextStartTimeRef := nextStartTimeRef s2 + d,
                                 audioSourcesRef := audioSourcesRef s2 @ [src],
                                 nextObject := Suc (nextObject s2)\<rparr>,
                              [SourceStart src]), Proceed))))
      else ((s, []), Proceed))"
  by (simp add: handleAudio_def handleAudio_begin_def handleAudio_resume_def Let_def
      split: option.splits)

lemma onmessage_blocks:
  "onmessage decode now m s =
     (let s1 = handleTranscription m s;
          (s2, e2) = handleToolCall m s1;
          ((s3, e3), c) = handleAudio decode now m s2
      in if c = Proceed then
           (let (s4, e4) = handleInterrupted m s3 in (s4, e2 @ e3 @ e4))
         else (s3, e2 @ e3))"
  by (simp add: onmessage_def onmessage_begin_def onmessage_resume_def handleAudio_def
      split_beta Let_def split: suspension.splits)

section \<open>What each block of \<open>onmessage\<close> leaves alone\<close>

lemma showTip_frame:
  "userTranscript (fst (showTip c s)) = userTranscript s"
  "aiTranscript (fst (showTip c s)) = aiTranscript s"
  "status (fst (showTip c s)) = status s"
  "isConnected (fst (showTip c s)) = isConnected s"
  "errorMessage (fst (showTip c s)) = errorMessage s"
  "heldHandles (fst (showTip c s)) = heldHandles s"
  "outputContextRef (fst (showTip c s)) = outputContextRef s"
  "nextStartTimeRef (fst (showTip c s)) = nextStartTimeRef s"
  "audioSourcesRef (fst (showTip c s)) = audioSourcesRef s"
  "aiSpeaking (fst (showTip c s)) = aiSpeaking s"
  "acknowledgements (snd (showTip c s)) = []"
  "started (snd (showTip c s)) = []"
  "stopped (snd (showTip c s)) = []"
  by (simp_all add: showTip_def heldHandles_def Let_def split: option.splits)

lemma acknowledgements_append:
  "acknowledgements (xs @ ys) = acknowledgements xs @ acknowledgements ys"
  by (induction xs rule: acknowledgements.induct) simp_all

lemma started_append: "started (xs @ ys) = started xs @ started ys"
  by (induction xs rule: started.induct) simp_all

lemma stopped_append: "stopped (xs @ ys) = stopped xs @ stopped ys"
  by (induction xs rule: stopped.induct) simp_all

lemma forEachCall_frame:
  "userTranscript (fst (forEachCall cs s)) = userTranscript s"
  "aiTranscript (fst (forEachCall cs s)) = aiTranscript s"
  "status (fst (forEachCall cs s)) = status s"
  "isConnected (fst (forEachCall cs s)) = isConnected s"
  "errorMessage (fst (forEachCall cs s)) = errorMessage s"
  "heldHandles (fst (forEachCall cs s)) = heldHandles s"
  "outputContextRef (fst (forEachCall cs s)) = outputContextRef s"
  "nextStartTimeRef (fst (forEachCall cs s)) = nextStartTimeRef s"
  "audioSourcesRef (fst (forEachCall cs s)) = audioSourcesRef s"
  "aiSpeaking (fst (forEachCall cs s)) = aiSpeaking s"
  "acknowledgements (snd (forEachCall cs s)) = []"
  "started (snd (forEachCall cs s)) = []"
  "stopped (snd (forEachCall cs s)) = []"
  by (induction cs arbitrary: s;
      simp add: split_beta Let_def showTip_frame acknowledgements_append started_append
        stopped_append)+


lemma handleTranscription_frame:
  "status (handleTranscription m s) = status s"
  "isConnected (handleTranscription m s) = isConnected s"
  "errorMessage (handleTranscription m s) = errorMessage s"
  "heldHandles (handleTranscription m s) = heldHandles s"
  "outputContextRef (handleTranscription m s) = outputContextRef s"
  "nextStartTimeRef (handleTranscription m s) = nextStartTimeRef s"
  "audioSourcesRef (handleTranscription m s) = audioSourcesRef s"
  "aiSpeaking (handleTranscription m s) = aiSpeaking s"
  by (simp_all add: handleTranscription_def heldHandles_def Let_def)

lemma handleTranscription_user:
  "userTranscript (handleTranscription m s)
     = (case inputTranscription m of
          None \<Rightarrow> userTranscript s
        | Some t \<Rightarrow> if t \<noteq> [] then t else userTranscript s)"
  by (simp add: handleTranscription_def truthy_def Let_def split: option.splits)

lemma handleTranscription_ai:
  "aiTranscript (handleTranscription m s)
     = (if turnComplete m then []
        else aiTranscript s @ (case outputTranscription m of None \<Rightarrow> [] | Some t \<Rightarrow> t))"
  by (simp add: handleTranscription_def truthy_def Let_def split: option.splits)

lemma handleToolCall_frame:
  "userTranscript (fst (handleToolCall m s)) = userTranscript s"
  "aiTranscript (fst (handleToolCall m s)) = aiTranscript s"
  "status (fst (handleToolCall m s)) = status s"
  "isConnected (fst (handleToolCall m s)) = isConnected s"
  "errorMessage (fst (handleToolCall m s)) = errorMessage s"
  "heldHandles (fst (handleToolCall m s)) = heldHandles s"
  "outputContextRef (fst (handleToolCall m s)) = outputContextRef s"
  "nextStartTimeRef (fst (handleToolCall m s)) = nextStartTimeRef s"
  "audioSourcesRef (fst (handleToolCall m s)) = audioSourcesRef s"
  "aiSpeaking (fst (handleToolCall m s)) = aiSpeaking s"
  "started (snd (handleToolCall m s)) = []"
  "stopped (snd (handleToolCall m s)) = []"
  by (simp_all add: handleToolCall_def split_beta forEachCall_frame started_append
      stopped_append split: option.splits)

lemma handleToolCall_acknowledgements:
  "acknowledgements (snd (handleToolCall m s)) = map acknowledge (delivered m)"
  by (simp add: handleToolCall_def delivered_def split_beta forEachCall_frame
      acknowledgements_append split: option.splits)

lemma handleAudio_frame:
  "userTranscript (fst (fst (handleAudio decode now m s))) = userTranscript s"
  "aiTranscript (fst (fst (handleAudio decode now m s))) = aiTranscript s"
  "status (fst (fst (handleAudio decode now m s))) = status s"
  "isConnected (fst (fst (handleAudio decode now m s))) = isConnected s"
  "errorMessage (fst (fst (handleAudio decode now m s))) = errorMessage s"
  "heldHandles (fst (fst (handleAudio decode now m s))) = heldHandles s"
  "acknowledgements (snd (fst (handleAudio decode now m s))) = []"
  "stopped (snd (fst (handleAudio decode now m s))) = []"
  by (simp_all add: handleAudio_blocks heldHandles_def Let_def split: option.splits)

lemma map_SourceStop:
  "acknowledgements (map (\<lambda>src. SourceStop (f src)) xs) = []"
  "started (map (\<lambda>src. SourceStop (f src)) xs) = []"
  "stopped (map (\<lambda>src. SourceStop (f src)) xs) = map f xs"
  by (induction xs) simp_all

lemma handleInterrupted_frame:
  "userTranscript (fst (handleInterrupted m s)) = userTranscript s"
  "status (fst (handleInterrupted m s)) = status s"
  "isConnected (fst (handleInterrupted m s)) = isConnected s"
  "errorMessage (fst (handleInterrupted m s)) = errorMessage s"
  "heldHandles (fst (handleInterrupted m s)) = heldHandles s"
  "acknowledgements (snd (handleInterrupted m s)) = []"
  "started (snd (handleInterrupted m s)) = []"
  by (simp_all add: handleInterrupted_def heldHandles_def map_SourceStop)

lemma handleInterrupted_ai:
  "aiTranscript (fst (handleInterrupted m s)) = (if interrupted m then [] else aiTranscript s)"
  by (simp add: handleInterrupted_def)

lemma onmessage_frame:
  "status (fst (onmessage decode now m s)) = status s"
  "isConnected (fst (onmessage decode now m s)) = isConnected s"
  "errorMessage (fst (onmessage decode now m s)) = errorMessage s"
  "heldHandles (fst (onmessage decode now m s)) = heldHandles s"
  by (simp_all add: onmessage_blocks split_beta Let_def handleInterrupted_frame handleAudio_frame
      handleToolCall_frame handleTranscription_frame)

lemma onmessage_userTranscript:
  "userTranscript (fst (onmessage decode now m s)) = userTranscript (handleTranscription m s)"
  by (simp add: onmessage_blocks split_beta Let_def handleInterrupted_frame handleAudio_frame
      handleToolCall_frame)

lemma onmessage_acknowledgements:
  "acknowledgements (snd (onmessage decode now m s)) = map acknowledge (delivered m)"
  by (simp add: onmessage_blocks split_beta Let_def acknowledgements_append
      handleInterrupted_frame handleAudio_frame handleToolCall_acknowledgements)

lemma receiveAll_Cons:
  "receiveAll decode (x # ms) s
     = (fst (receiveAll decode ms (fst (onmessage decode (fst x) (snd x) s))),
        snd (onmessage decode (fst x) (snd x) s)
        @ snd (receiveAll decode ms (fst (onmessage decode (fst x) (snd x) s))))"
  by (cases x) (simp add: split_beta)

lemma receiveAll_acknowledgements:
  "acknowledgements (snd (receiveAll decode ms s))
     = map acknowledge (concat (map (\<lambda>x. delivered (snd x)) ms))"
  by (induction ms arbitrary: s)
     (simp_all add: receiveAll_Cons acknowledgements_append onmessage_acknowledgements)

section \<open>Transcripts\<close>

text \<open>
  C8, as the code has it. A user-transcription text that is not empty replaces the user
  transcript, an empty or absent one leaves it as it was. In the transcription block a
  remote-transcription text is appended to the remote transcript, and a turn-complete
  signal then clears it; after the whole handler the remote transcript is empty whenever
  the message carries turn-complete, and is what the transcription block left whenever the
  message carries no interruption.
\<close>

theorem transcripts_update:
  "userTranscript (fst (onmessage decode now m s))
     = (case inputTranscription m of
          None \<Rightarrow> userTranscript s
        | Some t \<Rightarrow> if t \<noteq> [] then t else userTranscript s)
   \<and> aiTranscript (handleTranscription m s)
     = (if turnComplete m then []
        else aiTranscript s @ (case outputTranscription m of None \<Rightarrow> [] | Some t \<Rightarrow> t))
   \<and> (turnComplete m \<longrightarrow> aiTranscript (fst (onmessage decode now m s)) = [])
   \<and> (\<not> interrupted m \<longrightarrow>
        aiTranscript (fst (onmessage decode now m s)) = aiTranscript (handleTranscription m s))"
proof -
  have "turnComplete m \<longrightarrow> aiTranscript (fst (onmessage decode now m s)) = []"
    by (simp add: onmessage_blocks split_beta Let_def handleInterrupted_ai handleAudio_frame
        handleToolCall_frame handleTranscription_ai)
  moreover have "\<not> interrupted m \<longrightarrow>
        aiTranscript (fst (onmessage decode now m s)) = aiTranscript (handleTranscription m s)"
    by (simp add: onmessage_blocks split_beta Let_def handleInterrupted_ai handleAudio_frame
        handleToolCall_frame)
  ultimately show ?thesis
    by (simp add: onmessage_userTranscript handleTranscription_user handleTranscription_ai)
qed

theorem transcripts_update_witness:
  "turnComplete turnCompleteMessage
   \<and> aiTranscript (fst (onmessage decodeByLength 0 turnCompleteMessage sessionActive)) = []
   \<and> \<not> interrupted transcriptMessage
   \<and> userTranscript (fst (onmessage decodeByLength 0 transcriptMessage sessionActive))
       = ''I think so''
   \<and> aiTranscript (fst (onmessage decodeByLength 0 transcriptMessage sessionActive))
       = ''Try think again''"
  using transcripts_update [of decodeByLength 0 turnCompleteMessage sessionActive]
    transcripts_update [of decodeByLength 0 transcriptMessage sessionActive]
  by (simp add: turnCompleteMessage_def transcriptMessage_def emptyMessage_def sessionActive_def)

text \<open>
  C8 as stated fails: a user-transcription event whose text is empty does not replace the
  transcript on screen.
\<close>

theorem empty_fragment_keeps_transcript:
  "userTranscript (fst (onmessage decodeByLength 0
      (emptyMessage\<lparr>inputTranscription := Some []\<rparr>) sessionActive)) = ''I sink so''
   \<and> userTranscript (fst (onmessage decodeByLength 0
      (emptyMessage\<lparr>inputTranscription := Some []\<rparr>) sessionActive)) \<noteq> []"
  by (simp add: onmessage_userTranscript handleTranscription_user sessionActive_def)

section \<open>Tool calls\<close>

text \<open>
  C3. Whatever the names and arguments of the function calls a message delivers, the
  handler sends exactly one response for each, in their order and with their ids; so
  does a whole run of the handler over the messages of a session.
\<close>

theorem tool_acknowledged_once:
  "acknowledgements (snd (onmessage decode now m s)) = map acknowledge (delivered m)
   \<and> map fr_id (acknowledgements (snd (onmessage decode now m s))) = map fc_id (delivered m)
   \<and> length (acknowledgements (snd (onmessage decode now m s))) = length (delivered m)
   \<and> map fr_id (acknowledgements (snd (receiveAll decode ms s)))
       = map fc_id (concat (map (\<lambda>x. delivered (snd x)) ms))"
  by (simp add: onmessage_acknowledgements receiveAll_acknowledgements acknowledge_def comp_def)


text \<open>
  The same count holds when handlers overlap: every response is sent before the handler
  suspends, and none when it resumes.
\<close>

lemma sessionRun_acknowledgements:
  "acknowledgements (snd (sessionRun decode evs c))
     = map acknowledge (concat (map deliveredBy evs))"
proof (induction evs arbitrary: c)
  case Nil
  then show ?case by simp
next
  case (Cons e evs)
  have b: "acknowledgements (snd (fst (onmessage_begin now m s))) = map acknowledge (delivered m)"
    for now m s
    by (simp add: onmessage_begin_def split_beta Let_def acknowledgements_append
        handleToolCall_acknowledgements handleInterrupted_frame split: suspension.splits)
  have r: "acknowledgements (snd (onmessage_resume decode p s)) = []" for p s
    by (simp add: onmessage_resume_def handleAudio_resume_def handleInterrupted_frame
        split_beta Let_def acknowledgements_append split: option.splits)
  have "acknowledgements (snd (sessionStep decode e c)) = map acknowledge (deliveredBy e)"
    by (cases e; cases c) (simp_all add: split_beta b r)
  then show ?case
    using Cons.IH by (simp add: split_beta acknowledgements_append)
qed

lemma forEachCall_currentTip:
  "currentTip (fst (forEachCall cs s))
     = (if filter (\<lambda>c. fc_name c = Some ''showPronunciationTip'') cs = [] then currentTip s
        else fc_args (last (filter (\<lambda>c. fc_name c = Some ''showPronunciationTip'') cs)))"
proof (induction cs arbitrary: s)
  case Nil
  then show ?case by simp
next
  case (Cons c cs)
  have "currentTip (fst (showTip c s))
      = (if fc_name c = Some ''showPronunciationTip'' then fc_args c else currentTip s)"
    by (simp add: showTip_def Let_def)
  then show ?case
    using Cons.IH [of "fst (showTip c s)"] by (simp add: split_beta)
qed

lemma forEachCall_no_tip:
  "filter (\<lambda>c. fc_name c = Some ''showPronunciationTip'') cs = []
     \<Longrightarrow> forEachCall cs s = (s, [])"
  by (induction cs arbitrary: s) (simp_all add: showTip_def split: if_splits)

lemma handleToolCall_currentTip:
  "currentTip (fst (handleToolCall m s))
     = (if tipCalls m = [] then currentTip s else fc_args (last (tipCalls m)))"
  by (simp add: handleToolCall_def tipCalls_def delivered_def split_beta
      forEachCall_currentTip split: option.splits)

lemma handleToolCall_no_tip:
  assumes "tipCalls m = []"
  shows "handleToolCall m s
     = (s, if delivered m = [] then [] else [SendToolResponse (map acknowledge (delivered m))])"
  using assms
  by (auto simp add: handleToolCall_def tipCalls_def delivered_def forEachCall_no_tip
      split: option.splits)

lemma currentTip_frame:
  "currentTip (handleTranscription m s) = currentTip s"
  "currentTip (fst (fst (handleAudio decode now m s))) = currentTip s"
  "currentTip (fst (handleInterrupted m s)) = currentTip s"
  by (simp_all add: handleTranscription_def handleAudio_blocks handleInterrupted_def Let_def
      split: option.splits)

lemma onmessage_currentTip:
  "currentTip (fst (onmessage decode now m s))
     = (if tipCalls m = [] then currentTip s else fc_args (last (tipCalls m)))"
  by (simp add: onmessage_blocks split_beta Let_def currentTip_frame
      handleToolCall_currentTip)

text \<open>
  C4, as the code has it. Every function call is acknowledged with the result \<open>OK\<close>,
  also one with an unknown name or with a required parameter missing. After the handler
  the tip on screen is the arguments, as they are, of the last call of
  \<open>showPronunciationTip\<close> the message delivers, and the tip it was before when the
  message delivers none; for a message that delivers none, the tool block leaves the
  whole state as it is and does nothing but send the response. The same is said of the
  single call as the loop treats it. No message changes the status, the connection flag,
  the error message or the handles held.
\<close>

theorem tool_always_ok:
  "map fr_result (acknowledgements (snd (onmessage decode now m s)))
     = replicate (length (delivered m)) ''OK''
   \<and> map fr_id (acknowledgements (snd (onmessage decode now m s))) = map fc_id (delivered m)
   \<and> currentTip (fst (onmessage decode now m s))
       = (if tipCalls m = [] then currentTip s else fc_args (last (tipCalls m)))
   \<and> (tipCalls m = [] \<longrightarrow>
        handleToolCall m s
          = (s, if delivered m = [] then []
                else [SendToolResponse (map acknowledge (delivered m))]))
   \<and> (fc_name call \<noteq> Some ''showPronunciationTip'' \<longrightarrow> showTip call s = (s, []))
   \<and> (fc_name call = Some ''showPronunciationTip'' \<longrightarrow>
        currentTip (fst (showTip call s)) = fc_args call)
   \<and> status (fst (onmessage decode now m s)) = status s
   \<and> isConnected (fst (onmessage decode now m s)) = isConnected s
   \<and> errorMessage (fst (onmessage decode now m s)) = errorMessage s
   \<and> heldHandles (fst (onmessage decode now m s)) = heldHandles s"
proof -
  have "map fr_result (map acknowledge cs) = replicate (length cs) ''OK''" for cs
    by (induction cs) (simp_all add: acknowledge_def)
  moreover have "tipCalls m = [] \<longrightarrow>
        handleToolCall m s
          = (s, if delivered m = [] then []
                else [SendToolResponse (map acknowledge (delivered m))])"
    using handleToolCall_no_tip [of m s] by blast
  ultimately show ?thesis
    by (simp add: onmessage_acknowledgements onmessage_frame onmessage_currentTip
        showTip_def acknowledge_def comp_def Let_def)
qed

theorem tool_always_ok_witness:
  "tipCalls unknownToolMessage = []
   \<and> handleToolCall unknownToolMessage sessionActive
       = (sessionActive,
          [SendToolResponse
             [\<lparr>fr_id = Some ''t1'', fr_name = Some ''playSound'', fr_result = ''OK''\<rparr>]])
   \<and> currentTip (fst (onmessage decodeByLength 0 unknownToolMessage sessionActive))
       = currentTip sessionActive
   \<and> map fr_result (acknowledgements
        (snd (onmessage decodeByLength 0 unknownToolMessage sessionActive))) = [''OK'']
   \<and> currentTip (fst (onmessage decodeByLength 0 missingTipMessage sessionActive))
       = Some [(''word'', ''think'')]
   \<and> map fr_result (acknowledgements
        (snd (onmessage decodeByLength 0 missingTipMessage sessionActive))) = [''OK'']
   \<and> fc_name \<lparr>fc_id = Some ''t1'', fc_name = Some ''playSound'', fc_args = Some []\<rparr>
       \<noteq> Some ''showPronunciationTip''
   \<and> showTip \<lparr>fc_id = Some ''t1'', fc_name = Some ''playSound'', fc_args = Some []\<rparr>
       sessionActive = (sessionActive, [])
   \<and> fc_name \<lparr>fc_id = Some ''t2'', fc_name = Some ''showPronunciationTip'',
         fc_args = Some [(''word'', ''think'')]\<rparr> = Some ''showPronunciationTip''
   \<and> currentTip (fst (showTip \<lparr>fc_id = Some ''t2'', fc_name = Some ''showPronunciationTip'',
         fc_args = Some [(''word'', ''think'')]\<rparr> sessionActive))
       = Some [(''word'', ''think'')]"
proof -
  have u: "tipCalls unknownToolMessage = []"
    "delivered unknownToolMessage
       = [\<lparr>fc_id = Some ''t1'', fc_name = Some ''playSound'', fc_args = Some []\<rparr>]"
    by (simp_all add: tipCalls_def delivered_def unknownToolMessage_def emptyMessage_def)
  have t: "tipCalls missingTipMessage
       = [\<lparr>fc_id = Some ''t2'', fc_name = Some ''showPronunciationTip'',
           fc_args = Some [(''word'', ''think'')]\<rparr>]"
    "delivered missingTipMessage
       = [\<lparr>fc_id = Some ''t2'', fc_name = Some ''showPronunciationTip'',
           fc_args = Some [(''word'', ''think'')]\<rparr>]"
    by (simp_all add: tipCalls_def delivered_def missingTipMessage_def emptyMessage_def)
  show ?thesis
    using tool_always_ok [of decodeByLength 0 unknownToolMessage sessionActive
        "\<lparr>fc_id = Some ''t1'', fc_name = Some ''playSound'', fc_args = Some []\<rparr>"]
      tool_always_ok [of decodeByLength 0 missingTipMessage sessionActive
        "\<lparr>fc_id = Some ''t2'', fc_name = Some ''showPronunciationTip'',
           fc_args = Some [(''word'', ''think'')]\<rparr>"]
    by (simp add: u t acknowledge_def)
qed

text \<open>
  C4 as stated fails: a call of the unknown tool \<open>playSound\<close> and a call of
  \<open>showPronunciationTip\<close> without its \<open>tip\<close> are both acknowledged with \<open>OK\<close>.
\<close>

theorem failed_tool_call_acknowledged_ok:
  "acknowledgements (snd (onmessage decodeByLength 0 unknownToolMessage sessionActive))
     = [\<lparr>fr_id = Some ''t1'', fr_name = Some ''playSound'', fr_result = ''OK''\<rparr>]
   \<and> acknowledgements (snd (onmessage decodeByLength 0 missingTipMessage sessionActive))
     = [\<lparr>fr_id = Some ''t2'', fr_name = Some ''showPronunciationTip'', fr_result = ''OK''\<rparr>]"
  by (simp add: onmessage_acknowledgements delivered_def acknowledge_def
      unknownToolMessage_def missingTipMessage_def emptyMessage_def)

section \<open>Playback scheduling\<close>

lemma onmessage_begin_audio:
  assumes "truthy (audioData m)" and "outputContextRef s \<noteq> None"
  shows "snd (onmessage_begin now m s)
       = Some \<lparr>pendingAt = now, pendingChunk = the (audioData m), pendingMessage = m\<rparr>
     \<and> nextStartTimeRef (fst (fst (onmessage_begin now m s))) = max (nextStartTimeRef s) now
     \<and> started (snd (fst (onmessage_begin now m s))) = []"
proof -
  let ?s = "fst (handleToolCall m (handleTranscription m s))"
  have "outputContextRef ?s \<noteq> None" "nextStartTimeRef ?s = nextStartTimeRef s"
    using assms(2) by (simp_all add: handleToolCall_frame handleTranscription_frame)
  then show ?thesis
    using assms(1)
    by (auto simp add: onmessage_begin_def handleAudio_begin_def split_beta Let_def
        handleToolCall_frame)
qed

lemma onmessage_begin_schedule:
  assumes "\<not> interrupted m"
  shows "started (snd (fst (onmessage_begin now m s))) = []
     \<and> nextStartTimeRef s \<le> nextStartTimeRef (fst (fst (onmessage_begin now m s)))
     \<and> (\<forall>p. snd (onmessage_begin now m s) = Some p \<longrightarrow>
          pendingAt p \<le> nextStartTimeRef (fst (fst (onmessage_begin now m s)))
          \<and> pendingMessage p = m)"
proof -
  let ?s = "fst (handleToolCall m (handleTranscription m s))"
  have "nextStartTimeRef ?s = nextStartTimeRef s"
    by (simp add: handleToolCall_frame handleTranscription_frame)
  then show ?thesis
    using assms
    by (auto simp add: onmessage_begin_def handleAudio_begin_def handleInterrupted_def
        split_beta Let_def handleToolCall_frame split: option.splits)
qed

lemma onmessage_resume_started:
  assumes "decode (pendingChunk p) = Some d" and "outputContextRef s \<noteq> None"
  shows "started (snd (onmessage_resume decode p s))
       = [\<lparr>src_id = nextObject s, src_when = nextStartTimeRef s, src_duration = d\<rparr>]
     \<and> (\<not> interrupted (pendingMessage p) \<longrightarrow>
          nextStartTimeRef (fst (onmessage_resume decode p s)) = nextStartTimeRef s + d)"
  using assms
  by (auto simp add: onmessage_resume_def handleAudio_resume_def handleInterrupted_def
      Let_def started_append map_SourceStop)

lemma onmessage_resume_schedule:
  assumes "\<not> interrupted (pendingMessage p)"
  shows "started (snd (onmessage_resume decode p s)) = []
       \<and> nextStartTimeRef (fst (onmessage_resume decode p s)) = nextStartTimeRef s
     \<or> (\<exists>d. decode (pendingChunk p) = Some d
          \<and> started (snd (onmessage_resume decode p s))
              = [\<lparr>src_id = nextObject s, src_when = nextStartTimeRef s, src_duration = d\<rparr>]
          \<and> nextStartTimeRef (fst (onmessage_resume decode p s)) = nextStartTimeRef s + d)"
  using assms
  by (auto simp add: onmessage_resume_def handleAudio_resume_def handleInterrupted_def
      Let_def split: option.splits)

lemma onmessage_scheduled:
  assumes "truthy (audioData m)" and "outputContextRef s \<noteq> None"
    and "decode (the (audioData m)) = Some d"
  shows "map (\<lambda>a. (src_when a, src_duration a)) (started (snd (onmessage decode now m s)))
       = [(max (nextStartTimeRef s) now, d)]"
proof -
  let ?b = "onmessage_begin now m s"
  have b: "snd ?b = Some \<lparr>pendingAt = now, pendingChunk = the (audioData m), pendingMessage = m\<rparr>"
    "nextStartTimeRef (fst (fst ?b)) = max (nextStartTimeRef s) now"
    "started (snd (fst ?b)) = []"
    using onmessage_begin_audio [OF assms(1,2)] by simp_all
  have "outputContextRef (fst (fst ?b)) \<noteq> None"
    using assms(1,2)
    by (auto simp add: onmessage_begin_def handleAudio_begin_def split_beta Let_def
        handleToolCall_frame handleTranscription_frame)
  then have "started (snd (onmessage_resume decode
        \<lparr>pendingAt = now, pendingChunk = the (audioData m), pendingMessage = m\<rparr> (fst (fst ?b))))
      = [\<lparr>src_id = nextObject (fst (fst ?b)), src_when = nextStartTimeRef (fst (fst ?b)),
          src_duration = d\<rparr>]"
    using onmessage_resume_started [of decode
        "\<lparr>pendingAt = now, pendingChunk = the (audioData m), pendingMessage = m\<rparr>" d
        "fst (fst ?b)"] assms(3)
    by simp
  then show ?thesis
    using b by (simp add: onmessage_def split_beta started_append)
qed

text \<open>
  One event of a session without interruption: \<open>nextStartTimeRef\<close> does not go back, a
  source that is started begins at the old value and ends at the new one, and those in
  flight stay behind \<open>nextStartTimeRef\<close>.
\<close>

lemma sessionStep_schedule:
  assumes nonneg: "\<forall>c d. decode c = Some d \<longrightarrow> 0 \<le> d"
    and "\<not> interrupts e"
    and "\<forall>p\<in>set ps. \<not> interrupted (pendingMessage p)"
  shows "nextStartTimeRef s \<le> nextStartTimeRef (fst (fst (sessionStep decode e (s, ps))))
     \<and> (\<forall>a\<in>set (started (snd (sessionStep decode e (s, ps)))).
          nextStartTimeRef s \<le> src_when a \<and> 0 \<le> src_duration a
          \<and> src_when a + src_duration a
              \<le> nextStartTimeRef (fst (fst (sessionStep decode e (s, ps)))))
     \<and> length (started (snd (sessionStep decode e (s, ps)))) \<le> 1
     \<and> (\<forall>p\<in>set (snd (fst (sessionStep decode e (s, ps)))).
          \<not> interrupted (pendingMessage p))
     \<and> ((\<forall>p\<in>set ps. pendingAt p \<le> nextStartTimeRef s) \<longrightarrow>
          (\<forall>p\<in>set (snd (fst (sessionStep decode e (s, ps)))).
             pendingAt p \<le> nextStartTimeRef (fst (fst (sessionStep decode e (s, ps))))))"
proof (cases e)
  case (Arrive now m)
  then have m: "\<not> interrupted m" using assms(2) by simp
  show ?thesis
    using onmessage_begin_schedule [OF m, of now s] assms(3) m
    by (auto simp add: Arrive split_beta split: option.splits)
next
  case (Decoded k)
  show ?thesis
  proof (cases "k < length ps")
    case False
    then show ?thesis using assms(3) by (simp add: Decoded)
  next
    case True
    let ?p = "ps ! k"
    let ?r = "onmessage_resume decode ?p s"
    have p: "\<not> interrupted (pendingMessage ?p)"
      using assms(3) True by simp
    have sub: "set (take k ps @ drop (Suc k) ps) \<subseteq> set ps"
      using set_take_subset [of k ps] set_drop_subset [of "Suc k" ps] by auto
    have res: "sessionStep decode e (s, ps) = ((fst ?r, take k ps @ drop (Suc k) ps), snd ?r)"
      using True by (simp add: Decoded split_beta)
    consider (none) "started (snd ?r) = []" "nextStartTimeRef (fst ?r) = nextStartTimeRef s"
      | (one) d where "decode (pendingChunk ?p) = Some d"
        "started (snd ?r)
           = [\<lparr>src_id = nextObject s, src_when = nextStartTimeRef s, src_duration = d\<rparr>]"
        "nextStartTimeRef (fst ?r) = nextStartTimeRef s + d"
      using onmessage_resume_schedule [OF p, of decode s] by blast
    then show ?thesis
    proof cases
      case none
      then show ?thesis using assms(3) sub by (auto simp add: res)
    next
      case one
      from one(1) nonneg have "0 \<le> d" by blast
      with one show ?thesis using assms(3) sub by (fastforce simp add: res)
    qed
  qed
qed

lemma sessionRun_Cons:
  "sessionRun decode (e # es) c
     = (fst (sessionRun decode es (fst (sessionStep decode e c))),
        snd (sessionStep decode e c) @ snd (sessionRun decode es (fst (sessionStep decode e c))))"
  by (simp add: split_beta)

lemma sessionRun_schedule:
  assumes nonneg: "\<forall>c d. decode c = Some d \<longrightarrow> 0 \<le> d"
    and "\<forall>e\<in>set evs. \<not> interrupts e"
    and "\<forall>p\<in>set ps. \<not> interrupted (pendingMessage p)"
    and "\<forall>p\<in>set ps. pendingAt p \<le> nextStartTimeRef s"
  shows "sorted_wrt (\<lambda>a b. src_when a + src_duration a \<le> src_when b)
           (started (snd (sessionRun decode evs (s, ps))))
     \<and> (\<forall>a\<in>set (started (snd (sessionRun decode evs (s, ps)))).
          nextStartTimeRef s \<le> src_when a \<and> 0 \<le> src_duration a
          \<and> src_when a + src_duration a
              \<le> nextStartTimeRef (fst (fst (sessionRun decode evs (s, ps)))))
     \<and> nextStartTimeRef s \<le> nextStartTimeRef (fst (fst (sessionRun decode evs (s, ps))))
     \<and> (\<forall>p\<in>set (snd (fst (sessionRun decode evs (s, ps)))).
          pendingAt p \<le> nextStartTimeRef (fst (fst (sessionRun decode evs (s, ps)))))"
  using assms(2-4)
proof (induction evs arbitrary: s ps)
  case Nil
  then show ?case by simp
next
  case (Cons e evs)
  let ?c1 = "fst (sessionStep decode e (s, ps))"
  let ?s1 = "fst ?c1"
  let ?ps1 = "snd ?c1"
  let ?e1 = "started (snd (sessionStep decode e (s, ps)))"
  let ?e2 = "started (snd (sessionRun decode evs (?s1, ?ps1)))"
  let ?s2 = "fst (fst (sessionRun decode evs (?s1, ?ps1)))"
  let ?ps2 = "snd (fst (sessionRun decode evs (?s1, ?ps1)))"
  have e: "\<not> interrupts e" and evs: "\<forall>e\<in>set evs. \<not> interrupts e"
    using Cons.prems(1) by simp_all
  have step: "nextStartTimeRef s \<le> nextStartTimeRef ?s1"
    "\<forall>a\<in>set ?e1. nextStartTimeRef s \<le> src_when a \<and> 0 \<le> src_duration a
       \<and> src_when a + src_duration a \<le> nextStartTimeRef ?s1"
    "length ?e1 \<le> 1"
    "\<forall>p\<in>set ?ps1. \<not> interrupted (pendingMessage p)"
    "\<forall>p\<in>set ?ps1. pendingAt p \<le> nextStartTimeRef ?s1"
    using sessionStep_schedule [OF nonneg e Cons.prems(2), of s] Cons.prems(3) by simp_all
  have ih: "sorted_wrt (\<lambda>a b. src_when a + src_duration a \<le> src_when b) ?e2"
    "\<forall>a\<in>set ?e2. nextStartTimeRef ?s1 \<le> src_when a \<and> 0 \<le> src_duration a
       \<and> src_when a + src_duration a \<le> nextStartTimeRef ?s2"
    "nextStartTimeRef ?s1 \<le> nextStartTimeRef ?s2"
    "\<forall>p\<in>set ?ps2. pendingAt p \<le> nextStartTimeRef ?s2"
    using Cons.IH [OF evs step(4) step(5)] by simp_all
  have one: "sorted_wrt (\<lambda>a b. src_when a + src_duration a \<le> src_when b) ?e1"
    using step(3) by (cases ?e1) simp_all
  have cross: "\<forall>a\<in>set ?e1. \<forall>b\<in>set ?e2. src_when a + src_duration a \<le> src_when b"
    using step(2) ih(2) by fastforce
  have "sorted_wrt (\<lambda>a b. src_when a + src_duration a \<le> src_when b) (?e1 @ ?e2)"
    using one ih(1) cross by (simp add: sorted_wrt_append)
  moreover have "\<forall>a\<in>set (?e1 @ ?e2). nextStartTimeRef s \<le> src_when a \<and> 0 \<le> src_duration a
       \<and> src_when a + src_duration a \<le> nextStartTimeRef ?s2"
    using step ih by fastforce
  moreover have "nextStartTimeRef s \<le> nextStartTimeRef ?s2"
    using step(1) ih(3) by simp
  ultimately show ?case
    using ih(4) by (simp add: sessionRun_Cons started_append del: sessionRun.simps)
qed

text \<open>
  C1, as the code has it. A chunk that arrives while there is an output context moves
  \<open>nextStartTimeRef\<close> up to the output clock and is handed to the decoder; when it is
  decoded, and the output context is still there, it is started at the value
  \<open>nextStartTimeRef\<close> has at that moment, and \<open>nextStartTimeRef\<close> becomes the end of
  the segment. When nothing else runs during the decoding, that start time is the maximum
  of the output clock at the arrival and the \<open>nextStartTimeRef\<close> before. Hence, for
  every order of arrivals and completed decodings without interruption, with the clock
  readings arbitrary and the decoded durations not negative: the start times of the
  segments are non-decreasing, every segment ends no later than each later one starts,
  so no two overlap, and \<open>nextStartTimeRef\<close> is never before the end of a segment
  started nor before the clock reading of a chunk still being decoded, so no segment
  starts before its chunk arrived. Times are real numbers, the idealisation of the
  source's floating point.
\<close>

theorem playback_schedule:
  assumes "\<forall>c d. decode c = Some d \<longrightarrow> 0 \<le> d"
    and "\<forall>e\<in>set evs. \<not> interrupts e"
  shows "(truthy (audioData m) \<and> outputContextRef s \<noteq> None \<longrightarrow>
            snd (onmessage_begin now m s)
              = Some \<lparr>pendingAt = now, pendingChunk = the (audioData m), pendingMessage = m\<rparr>
            \<and> nextStartTimeRef (fst (fst (onmessage_begin now m s)))
                = max (nextStartTimeRef s) now)
     \<and> (decode (pendingChunk p) = Some d \<and> outputContextRef s \<noteq> None \<longrightarrow>
            started (snd (onmessage_resume decode p s))
              = [\<lparr>src_id = nextObject s, src_when = nextStartTimeRef s, src_duration = d\<rparr>]
            \<and> (\<not> interrupted (pendingMessage p) \<longrightarrow>
                 nextStartTimeRef (fst (onmessage_resume decode p s))
                   = nextStartTimeRef s + d))
     \<and> (truthy (audioData m) \<and> outputContextRef s \<noteq> None
          \<and> decode (the (audioData m)) = Some d \<longrightarrow>
            map (\<lambda>a. (src_when a, src_duration a)) (started (snd (onmessage decode now m s)))
              = [(max (nextStartTimeRef s) now, d)])
     \<and> sorted (map src_when (started (snd (sessionRun decode evs (s, [])))))
     \<and> sorted_wrt (\<lambda>a b. src_when a + src_duration a \<le> src_when b)
         (started (snd (sessionRun decode evs (s, []))))
     \<and> (\<forall>a\<in>set (started (snd (sessionRun decode evs (s, [])))).
          src_when a + src_duration a
            \<le> nextStartTimeRef (fst (fst (sessionRun decode evs (s, [])))))
     \<and> (\<forall>p\<in>set (snd (fst (sessionRun decode evs (s, [])))).
          pendingAt p \<le> nextStartTimeRef (fst (fst (sessionRun decode evs (s, [])))))"
proof -
  let ?segs = "started (snd (sessionRun decode evs (s, [])))"
  have a: "truthy (audioData m) \<and> outputContextRef s \<noteq> None \<longrightarrow>
            snd (onmessage_begin now m s)
              = Some \<lparr>pendingAt = now, pendingChunk = the (audioData m), pendingMessage = m\<rparr>
            \<and> nextStartTimeRef (fst (fst (onmessage_begin now m s)))
                = max (nextStartTimeRef s) now"
    using onmessage_begin_audio [of m s now] by blast
  have b: "decode (pendingChunk p) = Some d \<and> outputContextRef s \<noteq> None \<longrightarrow>
            started (snd (onmessage_resume decode p s))
              = [\<lparr>src_id = nextObject s, src_when = nextStartTimeRef s, src_duration = d\<rparr>]
            \<and> (\<not> interrupted (pendingMessage p) \<longrightarrow>
                 nextStartTimeRef (fst (onmessage_resume decode p s))
                   = nextStartTimeRef s + d)"
    using onmessage_resume_started [of decode p d s] by blast
  have c: "truthy (audioData m) \<and> outputContextRef s \<noteq> None
          \<and> decode (the (audioData m)) = Some d \<longrightarrow>
            map (\<lambda>a. (src_when a, src_duration a)) (started (snd (onmessage decode now m s)))
              = [(max (nextStartTimeRef s) now, d)]"
    using onmessage_scheduled [of m s decode d now] by blast
  have run: "sorted_wrt (\<lambda>a b. src_when a + src_duration a \<le> src_when b) ?segs"
    "\<forall>a\<in>set ?segs. 0 \<le> src_duration a"
    "\<forall>a\<in>set ?segs. src_when a + src_duration a
       \<le> nextStartTimeRef (fst (fst (sessionRun decode evs (s, []))))"
    "\<forall>p\<in>set (snd (fst (sessionRun decode evs (s, [])))).
       pendingAt p \<le> nextStartTimeRef (fst (fst (sessionRun decode evs (s, []))))"
    using sessionRun_schedule [OF assms, of "[]" s] by simp_all
  have "sorted_wrt (\<lambda>a b. src_when a \<le> src_when b) ?segs"
  proof (rule sorted_wrt_mono_rel [OF _ run(1)])
    fix x y
    assume "x \<in> set ?segs" "y \<in> set ?segs" "src_when x + src_duration x \<le> src_when y"
    then show "src_when x \<le> src_when y" using run(2) by fastforce
  qed
  then have "sorted (map src_when ?segs)"
    by (simp add: sorted_map)
  then show ?thesis
    using a b c run(1,3,4) by blast
qed

lemma exampleEvents_schedule:
  "started (snd (sessionRun decodeByLength exampleEvents (listening, [])))
     = [\<lparr>src_id = 0, src_when = 1 / 2, src_duration = 2\<rparr>,
        \<lparr>src_id = 1, src_when = 5 / 2, src_duration = 3\<rparr>,
        \<lparr>src_id = 2, src_when = 9, src_duration = 1\<rparr>]"
  by (simp add: exampleEvents_def audioChunk_def emptyMessage_def listening_def initial_def
      decodeByLength_def onmessage_begin_def onmessage_resume_def handleTranscription_def
      handleToolCall_def handleAudio_begin_def handleAudio_resume_def handleInterrupted_def
      truthy_def Let_def)

theorem playback_schedule_witness:
  "snd (onmessage_begin 5 (audioChunk ''AAAA'') listening)
     = Some \<lparr>pendingAt = 5, pendingChunk = ''AAAA'', pendingMessage = audioChunk ''AAAA''\<rparr>
   \<and> nextStartTimeRef (fst (fst (onmessage_begin 5 (audioChunk ''AAAA'') listening))) = 5
   \<and> started (snd (onmessage_resume decodeByLength
        \<lparr>pendingAt = 5, pendingChunk = ''AAAA'', pendingMessage = audioChunk ''AAAA''\<rparr>
        listening))
       = [\<lparr>src_id = 0, src_when = 0, src_duration = 2\<rparr>]
   \<and> map (\<lambda>a. (src_when a, src_duration a))
        (started (snd (onmessage decodeByLength 5 (audioChunk ''AAAA'') listening)))
       = [(5, 2)]
   \<and> sorted (map src_when
        (started (snd (sessionRun decodeByLength exampleEvents (listening, [])))))
   \<and> sorted_wrt (\<lambda>a b. src_when a + src_duration a \<le> src_when b)
        (started (snd (sessionRun decodeByLength exampleEvents (listening, []))))"
proof -
  have h1: "\<forall>c d. decodeByLength c = Some d \<longrightarrow> 0 \<le> d"
    by (simp add: decodeByLength_def)
  have h2: "\<forall>e\<in>set exampleEvents. \<not> interrupts e"
    by (simp add: exampleEvents_def audioChunk_def emptyMessage_def)
  have h3: "truthy (audioData (audioChunk ''AAAA''))" "outputContextRef listening \<noteq> None"
    "the (audioData (audioChunk ''AAAA'')) = ''AAAA''" "decodeByLength ''AAAA'' = Some 2"
    "nextStartTimeRef listening = 0" "nextObject listening = 0"
    by (simp_all add: audioChunk_def emptyMessage_def truthy_def listening_def initial_def
        decodeByLength_def)
  show ?thesis
    using playback_schedule [OF h1 h2, of "audioChunk ''AAAA''" listening 5
        "\<lparr>pendingAt = 5, pendingChunk = ''AAAA'', pendingMessage = audioChunk ''AAAA''\<rparr>" 2]
      h3
    by simp
qed

text \<open>
  C1 as stated fails. A chunk arrives when the output clock reads 1 and nothing is
  scheduled (\<open>nextStartTimeRef\<close> is 0); while it is decoded a second chunk arrives, at
  clock 2. The first chunk, of duration 2, is then started at 2, not at the maximum of its
  clock reading and the last scheduled end, which is 1.
\<close>

theorem overtaken_chunk_starts_later:
  "started (snd (sessionRun decodeByLength overtakenEvents (listening, [])))
     = [\<lparr>src_id = 0, src_when = 2, src_duration = 2\<rparr>]
   \<and> max 1 (nextStartTimeRef listening) = 1"
  by (simp add: overtakenEvents_def audioChunk_def emptyMessage_def listening_def initial_def
      decodeByLength_def onmessage_begin_def onmessage_resume_def handleTranscription_def
      handleToolCall_def handleAudio_begin_def handleAudio_resume_def handleInterrupted_def
      truthy_def Let_def)

text \<open>
  An interruption that arrives while a chunk is decoded resets \<open>nextStartTimeRef\<close> and
  empties the active set before the chunk's source exists: the source is then started at
  0, with the clock past 5, joins the active set and is not stopped.
\<close>

lemma interrupted_during_decoding:
  "started (snd (sessionRun decodeByLength interruptedDecoding (listening, [])))
     = [\<lparr>src_id = 0, src_when = 0, src_duration = 2\<rparr>]
   \<and> stopped (snd (sessionRun decodeByLength interruptedDecoding (listening, []))) = []
   \<and> audioSourcesRef (fst (fst (sessionRun decodeByLength interruptedDecoding (listening, []))))
       = [\<lparr>src_id = 0, src_when = 0, src_duration = 2\<rparr>]"
  by (simp add: interruptedDecoding_def audioChunk_def emptyMessage_def listening_def
      initial_def decodeByLength_def onmessage_begin_def onmessage_resume_def
      handleTranscription_def handleToolCall_def handleAudio_begin_def handleAudio_resume_def
      handleInterrupted_def truthy_def Let_def)

section \<open>Interruption\<close>

text \<open>
  When the handler reaches the interruption block, an interrupted message stops every
  source of the active set, empties the set, resets \<open>nextStartTimeRef\<close> and clears the
  speaking flag and the remote transcript.
\<close>

lemma interrupted_when_reached:
  assumes "interrupted m"
    and "snd (handleAudio decode now m (fst (handleToolCall m (handleTranscription m s))))
           = Proceed"
  shows "audioSourcesRef (fst (onmessage decode now m s)) = []
     \<and> nextStartTimeRef (fst (onmessage decode now m s)) = 0
     \<and> \<not> aiSpeaking (fst (onmessage decode now m s))
     \<and> aiTranscript (fst (onmessage decode now m s)) = []
     \<and> set (map src_id (audioSourcesRef s)) \<subseteq> set (stopped (snd (onmessage decode now m s)))"
proof -
  let ?s = "fst (handleToolCall m (handleTranscription m s))"
  have "set (audioSourcesRef ?s) \<subseteq> set (audioSourcesRef (fst (fst (handleAudio decode now m ?s))))"
    by (auto simp add: handleAudio_blocks Let_def split: option.splits)
  then have "set (audioSourcesRef s)
      \<subseteq> set (audioSourcesRef (fst (fst (handleAudio decode now m ?s))))"
    by (simp add: handleToolCall_frame handleTranscription_frame)
  then show ?thesis
    using assms
    by (auto simp add: onmessage_blocks split_beta Let_def handleInterrupted_def stopped_append
        map_SourceStop handleToolCall_frame handleAudio_frame)
qed

text \<open>
  C2 fails on the code. A message that carries audio data and the interrupted signal,
  received when there is no output context (as after \<open>stopSession\<close>, which leaves the
  active set in place): the audio block sets the speaking flag and returns from the
  handler, so the interruption block does not run. No source is stopped, the active set
  and \<open>nextStartTimeRef\<close> are unchanged, the speaking flag is true and the remote
  transcript is not cleared.
\<close>

theorem interrupted_skipped_on_return:
  "audioSourcesRef (fst (onmessage decode now interruptedWithAudio (fst (stopSession sessionActive))))
     = [\<lparr>src_id = 0, src_when = 0, src_duration = 1\<rparr>,
        \<lparr>src_id = 1, src_when = 1, src_duration = 2\<rparr>]
   \<and> stopped (snd (onmessage decode now interruptedWithAudio (fst (stopSession sessionActive)))) = []
   \<and> aiSpeaking (fst (onmessage decode now interruptedWithAudio (fst (stopSession sessionActive))))
   \<and> nextStartTimeRef (fst (onmessage decode now interruptedWithAudio (fst (stopSession sessionActive)))) = 3
   \<and> aiTranscript (fst (onmessage decode now interruptedWithAudio (fst (stopSession sessionActive))))
     = ''Try think''"
  by (simp add: onmessage_blocks handleTranscription_def handleToolCall_def handleAudio_blocks
      truthy_def interruptedWithAudio_def emptyMessage_def stopSession_def sessionActive_def)


text \<open>The same happens when the decoder throws on the audio of an interrupted message.\<close>

lemma interrupted_skipped_on_throw:
  "audioSourcesRef (fst (onmessage (\<lambda>b. None) now interruptedWithAudio sessionActive))
     = audioSourcesRef sessionActive
   \<and> stopped (snd (onmessage (\<lambda>b. None) now interruptedWithAudio sessionActive)) = []
   \<and> aiSpeaking (fst (onmessage (\<lambda>b. None) now interruptedWithAudio sessionActive))"
  by (simp add: onmessage_blocks handleTranscription_def handleToolCall_def handleAudio_blocks
      truthy_def interruptedWithAudio_def emptyMessage_def sessionActive_def Let_def)

section \<open>Teardown\<close>

lemma stopSession_state:
  "status (fst (stopSession s)) = Idle"
  "isConnected (fst (stopSession s)) = False"
  "aiSpeaking (fst (stopSession s)) = False"
  "streamRef (fst (stopSession s)) = None"
  "sourceRef (fst (stopSession s)) = None"
  "processorRef (fst (stopSession s)) = None"
  "inputContextRef (fst (stopSession s)) = None"
  "outputContextRef (fst (stopSession s)) = None"
  "sessionPromiseRef (fst (stopSession s)) = None"
  by (simp_all add: stopSession_def)

lemma stopSession_untouched:
  "userTranscript (fst (stopSession s)) = userTranscript s"
  "aiTranscript (fst (stopSession s)) = aiTranscript s"
  "currentTip (fst (stopSession s)) = currentTip s"
  "errorMessage (fst (stopSession s)) = errorMessage s"
  "tipTimeoutRef (fst (stopSession s)) = tipTimeoutRef s"
  "audioSourcesRef (fst (stopSession s)) = audioSourcesRef s"
  "nextStartTimeRef (fst (stopSession s)) = nextStartTimeRef s"
  by (simp_all add: stopSession_def)

lemma operations_append:
  "tracksStopped (xs @ ys) = tracksStopped xs @ tracksStopped ys"
  "nodesDisconnected (xs @ ys) = nodesDisconnected xs @ nodesDisconnected ys"
  "contextsClosed (xs @ ys) = contextsClosed xs @ contextsClosed ys"
  "sessionsClosed (xs @ ys) = sessionsClosed xs @ sessionsClosed ys"
proof -
  show "tracksStopped (xs @ ys) = tracksStopped xs @ tracksStopped ys"
    by (induction xs rule: tracksStopped.induct) simp_all
  show "nodesDisconnected (xs @ ys) = nodesDisconnected xs @ nodesDisconnected ys"
    by (induction xs rule: nodesDisconnected.induct) simp_all
  show "contextsClosed (xs @ ys) = contextsClosed xs @ contextsClosed ys"
    by (induction xs rule: contextsClosed.induct) simp_all
  show "sessionsClosed (xs @ ys) = sessionsClosed xs @ sessionsClosed ys"
    by (induction xs rule: sessionsClosed.induct) simp_all
qed

lemma operations_release:
  "tracksStopped (release TracksStop r) = held r"
  "tracksStopped (release NodeDisconnect r) = []"
  "tracksStopped (release ContextClose r) = []"
  "tracksStopped (release SessionClose r) = []"
  "nodesDisconnected (release TracksStop r) = []"
  "nodesDisconnected (release NodeDisconnect r) = held r"
  "nodesDisconnected (release ContextClose r) = []"
  "nodesDisconnected (release SessionClose r) = []"
  "contextsClosed (release TracksStop r) = []"
  "contextsClosed (release NodeDisconnect r) = []"
  "contextsClosed (release ContextClose r) = held r"
  "contextsClosed (release SessionClose r) = []"
  "sessionsClosed (release TracksStop r) = []"
  "sessionsClosed (release NodeDisconnect r) = []"
  "sessionsClosed (release ContextClose r) = []"
  "sessionsClosed (release SessionClose r) = held r"
  by (simp_all add: release_def held_def split: option.splits)

lemma operations_cancel:
  "tracksStopped (case r of None \<Rightarrow> [] | Some t \<Rightarrow> if t \<noteq> 0 then [ClearTimeout t] else []) = []"
  "nodesDisconnected (case r of None \<Rightarrow> [] | Some t \<Rightarrow> if t \<noteq> 0 then [ClearTimeout t] else []) = []"
  "contextsClosed (case r of None \<Rightarrow> [] | Some t \<Rightarrow> if t \<noteq> 0 then [ClearTimeout t] else []) = []"
  "sessionsClosed (case r of None \<Rightarrow> [] | Some t \<Rightarrow> if t \<noteq> 0 then [ClearTimeout t] else []) = []"
  by (simp_all split: option.splits)

lemma stopSession_operations:
  "tracksStopped (snd (stopSession s)) = held (streamRef s)"
  "nodesDisconnected (snd (stopSession s)) = held (sourceRef s) @ held (processorRef s)"
  "contextsClosed (snd (stopSession s)) = held (inputContextRef s) @ held (outputContextRef s)"
  "sessionsClosed (snd (stopSession s)) = held (sessionPromiseRef s)"
  by (simp_all add: stopSession_def operations_append operations_release operations_cancel)

lemma heldHandles_stopSession: "heldHandles (fst (stopSession s)) = []"
  by (simp add: heldHandles_def held_def stopSession_state)

text \<open>
  C6, as the code has it. After \<open>stopSession\<close>, from any state: the tracks of the
  microphone stream are stopped, the two capture nodes are disconnected, the input and
  the output audio context are closed and the closing of the channel is requested, each
  for exactly the handle that was held and by no other operation; no handle is held
  afterwards, and the status is idle with the connection and speaking flags off. The
  transcripts and the visible tip are left as they were.
\<close>

theorem stopSession_teardown:
  "tracksStopped (snd (stopSession s)) = held (streamRef s)
   \<and> nodesDisconnected (snd (stopSession s)) = held (sourceRef s) @ held (processorRef s)
   \<and> contextsClosed (snd (stopSession s))
       = held (inputContextRef s) @ held (outputContextRef s)
   \<and> sessionsClosed (snd (stopSession s)) = held (sessionPromiseRef s)
   \<and> heldHandles (fst (stopSession s)) = []
   \<and> status (fst (stopSession s)) = Idle
   \<and> \<not> isConnected (fst (stopSession s))
   \<and> \<not> aiSpeaking (fst (stopSession s))
   \<and> userTranscript (fst (stopSession s)) = userTranscript s
   \<and> aiTranscript (fst (stopSession s)) = aiTranscript s
   \<and> currentTip (fst (stopSession s)) = currentTip s"
  by (simp add: stopSession_operations heldHandles_stopSession stopSession_state
      stopSession_untouched)

theorem stopSession_teardown_witness:
  "tracksStopped (snd (stopSession sessionActive)) = [3]
   \<and> nodesDisconnected (snd (stopSession sessionActive)) = [4, 5]
   \<and> contextsClosed (snd (stopSession sessionActive)) = [1, 2]
   \<and> sessionsClosed (snd (stopSession sessionActive)) = [6]
   \<and> status (fst (stopSession sessionActive)) = Idle
   \<and> currentTip (fst (stopSession sessionActive))
       = Some [(''word'', ''think''), (''tip'', ''Tongue between teeth'')]"
  using stopSession_teardown [of sessionActive]
  by (simp add: sessionActive_def held_def)

text \<open>
  C6 as stated fails: stopping the session in full flight leaves both transcripts and
  the tip on screen.
\<close>

theorem stopSession_keeps_transcripts:
  "userTranscript (fst (stopSession sessionActive)) = ''I sink so''
   \<and> aiTranscript (fst (stopSession sessionActive)) = ''Try think''
   \<and> currentTip (fst (stopSession sessionActive)) \<noteq> None"
  by (simp add: stopSession_def sessionActive_def)

text \<open>
  Two calls of \<open>stopSession\<close> in a row: the second returns the state it is given and
  applies none of the four operations; it only cancels the tip's timer once more, since
  \<open>tipTimeoutRef\<close> keeps the id. On the initial state \<open>stopSession\<close> does nothing at all.
\<close>

lemma stopSession_twice:
  "fst (stopSession (fst (stopSession s))) = fst (stopSession s)
   \<and> tracksStopped (snd (stopSession (fst (stopSession s)))) = []
   \<and> nodesDisconnected (snd (stopSession (fst (stopSession s)))) = []
   \<and> contextsClosed (snd (stopSession (fst (stopSession s)))) = []
   \<and> sessionsClosed (snd (stopSession (fst (stopSession s)))) = []
   \<and> snd (stopSession (fst (stopSession s)))
       = (case tipTimeoutRef s of
            None \<Rightarrow> []
          | Some t \<Rightarrow> if t \<noteq> 0 then [ClearTimeout t] else [])
   \<and> stopSession initial = (initial, [])"
proof -
  have "fst (stopSession (fst (stopSession s))) = fst (stopSession s)"
    by (simp add: stopSession_def)
  moreover have "stopSession initial = (initial, [])"
    by (simp add: stopSession_def initial_def release_def)
  moreover have "snd (stopSession (fst (stopSession s)))
       = (case tipTimeoutRef s of
            None \<Rightarrow> []
          | Some t \<Rightarrow> if t \<noteq> 0 then [ClearTimeout t] else [])"
    by (simp add: stopSession_def release_def)
  ultimately show ?thesis
    by (simp add: operations_cancel)
qed

text \<open>
  C7 fails on the code. \<open>stopSession\<close> is called while \<open>startSession\<close> is suspended at the
  microphone request, with the two audio contexts created: it closes the contexts and
  leaves the state idle with no handle held. When the request is then granted,
  \<open>startSession\<close> resumes: it stores the stream, finds no output context, and ends in its
  \<open>catch\<close> block. The status is error, not idle, and the microphone stream is held with
  its tracks never stopped.
\<close>

theorem stopSession_during_acquisition_leaks:
  "status (fst (stopSession acquiring)) = Idle
   \<and> heldHandles (fst (stopSession acquiring)) = []
   \<and> snd (stopSession acquiring) = [ContextClose 1, ContextClose 2]
   \<and> status (startSession_resume (Acquired 1 2 3 6) (fst (stopSession acquiring))) = Error
   \<and> streamRef (startSession_resume (Acquired 1 2 3 6) (fst (stopSession acquiring))) = Some 3
   \<and> heldHandles (startSession_resume (Acquired 1 2 3 6) (fst (stopSession acquiring))) = [3]
   \<and> tracksStopped (snd (stopSession acquiring)) = []"
  by (simp add: acquiring_def startSession_contexts_def startSession_reset_def
      startSession_resume_def startSession_catch_def stopSession_def release_def
      heldHandles_def held_def initial_def)

text \<open>The same for every state and every set of handles the acquisition answers with.\<close>

lemma startSession_resumed_after_stop:
  "streamRef (startSession_resume (Acquired ic oc st sp)
      (fst (stopSession (fst (startSession_contexts (Acquired ic oc st sp)
        (startSession_reset s)))))) = Some st
   \<and> status (startSession_resume (Acquired ic oc st sp)
      (fst (stopSession (fst (startSession_contexts (Acquired ic oc st sp)
        (startSession_reset s)))))) = Error
   \<and> tracksStopped (snd (stopSession (fst (startSession_contexts (Acquired ic oc st sp)
        (startSession_reset s))))) = held (streamRef s)"
  by (simp add: startSession_resume_def startSession_catch_def stopSession_state
      stopSession_operations startSession_contexts_def startSession_reset_def)

section \<open>Transport failure\<close>

text \<open>
  C5, as the code has it. On a transport failure \<open>onerror\<close> sets the error message and
  runs \<open>stopSession\<close>: the tracks of the microphone stream are stopped, the capture nodes
  disconnected, both audio contexts closed and the closing of the channel requested, each
  for exactly the handle that was held; no handle is held afterwards, the message stays,
  and the status is idle and not connected, from which the start button is enabled.
\<close>

theorem onerror_teardown:
  "fst (onerror s)
     = (fst (stopSession s))\<lparr>errorMessage := Some ''Connection error. Please try again.''\<rparr>
   \<and> snd (onerror s) = snd (stopSession s)
   \<and> tracksStopped (snd (onerror s)) = held (streamRef s)
   \<and> nodesDisconnected (snd (onerror s)) = held (sourceRef s) @ held (processorRef s)
   \<and> contextsClosed (snd (onerror s)) = held (inputContextRef s) @ held (outputContextRef s)
   \<and> sessionsClosed (snd (onerror s)) = held (sessionPromiseRef s)
   \<and> heldHandles (fst (onerror s)) = []
   \<and> errorMessage (fst (onerror s)) = Some ''Connection error. Please try again.''
   \<and> status (fst (onerror s)) = Idle
   \<and> \<not> isConnected (fst (onerror s))
   \<and> startEnabled (fst (onerror s))"
proof -
  have "fst (onerror s)
     = (fst (stopSession s))\<lparr>errorMessage := Some ''Connection error. Please try again.''\<rparr>"
    by (simp add: onerror_def stopSession_def)
  moreover have e: "snd (onerror s) = snd (stopSession s)"
    by (simp add: onerror_def stopSession_def)
  moreover have "heldHandles (fst (onerror s)) = []"
    by (simp add: onerror_def heldHandles_def held_def stopSession_state)
  moreover have "startEnabled (fst (onerror s))"
    by (simp add: onerror_def startEnabled_def stopSession_state)
  ultimately show ?thesis
    by (simp add: stopSession_operations stopSession_state)
qed

text \<open>
  C5 as stated fails: a transport failure on the session in full flight ends in the idle
  state, not in the error state.
\<close>

theorem onerror_ends_idle:
  "status (fst (onerror sessionActive)) = Idle
   \<and> status (fst (onerror sessionActive)) \<noteq> Error"
  by (simp add: onerror_def stopSession_def)

section \<open>Starting a session\<close>



end
